theory Spec2Isabelle
  imports Main "HOL-Library.Char_ord" "HOL-Library.List_Lexorder"
begin

section \<open>Python values used by the pipeline\<close>

text \<open>
  The pipeline of \<^verbatim>\<open>src/scripts/utility.py\<close> and \<^verbatim>\<open>src/scripts/fpl_api.py\<close>
  moves JSON payloads of the upstream API into a storage bucket and keeps a ledger of
  its loads in a warehouse table. The payloads are Python objects as \<^verbatim>\<open>json\<close> parses
  them: a dict is an association list in insertion order, numbers are the integers.
  The implicit exceptions of Python's dynamic typing are values of \<open>py_error\<close>.
\<close>

datatype py_error = AttributeError | TypeError | IndexError | ValueError

datatype jval =
    JNull
  | JBool bool
  | JInt int
  | JStr string
  | JArr "jval list"
  | JObj "(string \<times> jval) list"

text \<open>Truth value of an object, as \<^verbatim>\<open>if data:\<close> tests it.\<close>

fun truthy :: "jval \<Rightarrow> bool" where
  "truthy JNull = False"
| "truthy (JBool b) = b"
| "truthy (JInt n) = (n \<noteq> 0)"
| "truthy (JStr s) = (s \<noteq> [])"
| "truthy (JArr xs) = (xs \<noteq> [])"
| "truthy (JObj kvs) = (kvs \<noteq> [])"

text \<open>\<^verbatim>\<open>for x in obj\<close>: a list yields its elements, a dict its keys, a string its
  characters; anything else is not iterable.\<close>

fun py_iter :: "jval \<Rightarrow> py_error + jval list" where
  "py_iter (JArr xs) = Inr xs"
| "py_iter (JObj kvs) = Inr (map (\<lambda>kv. JStr (fst kv)) kvs)"
| "py_iter (JStr s) = Inr (map (\<lambda>c. JStr [c]) s)"
| "py_iter _ = Inl TypeError"

subsection \<open>Dicts\<close>

definition dict_get :: "(string \<times> jval) list \<Rightarrow> string \<Rightarrow> jval option" where
  "dict_get d k = map_of d k"

text \<open>\<^verbatim>\<open>d[k] = v\<close>: an existing key keeps its place, a new key goes last.\<close>

fun dict_set :: "string \<Rightarrow> jval \<Rightarrow> (string \<times> jval) list \<Rightarrow> (string \<times> jval) list" where
  "dict_set k v [] = [(k, v)]"
| "dict_set k v (p # ps) = (if fst p = k then (k, v) # ps else p # dict_set k v ps)"

definition dict_del :: "string \<Rightarrow> (string \<times> jval) list \<Rightarrow> (string \<times> jval) list" where
  "dict_del k d = filter (\<lambda>p. fst p \<noteq> k) d"

text \<open>\<^verbatim>\<open>data.get(key, [])\<close>; only a dict has the method.\<close>

fun py_get_or_empty :: "jval \<Rightarrow> string \<Rightarrow> py_error + jval" where
  "py_get_or_empty (JObj d) k = Inr (case dict_get d k of None \<Rightarrow> JArr [] | Some v \<Rightarrow> v)"
| "py_get_or_empty _ k = Inl AttributeError"

subsection \<open>Strings\<close>

definition startswith :: "string \<Rightarrow> string \<Rightarrow> bool" where
  "startswith s p = (take (length p) s = p)"

definition endswith :: "string \<Rightarrow> string \<Rightarrow> bool" where
  "endswith s p = (length p \<le> length s \<and> drop (length s - length p) s = p)"

text \<open>\<^verbatim>\<open>sub in s\<close>.\<close>

fun py_in :: "string \<Rightarrow> string \<Rightarrow> bool" where
  "py_in sub [] = (sub = [])"
| "py_in sub (c # cs) = (startswith (c # cs) sub \<or> py_in sub cs)"

text \<open>\<^verbatim>\<open>s.split(sep)\<close> for a separator of one character; the result is never empty.\<close>

fun py_split :: "char \<Rightarrow> string \<Rightarrow> string list" where
  "py_split sep [] = [[]]"
| "py_split sep (c # cs) =
     (if c = sep then [] # py_split sep cs
      else (case py_split sep cs of [] \<Rightarrow> [[c]] | x # xs \<Rightarrow> (c # x) # xs))"

text \<open>\<^verbatim>\<open>xs[-1]\<close> and \<^verbatim>\<open>xs[0]\<close> raise IndexError on an empty list.\<close>

definition py_last :: "'a list \<Rightarrow> py_error + 'a" where
  "py_last xs = (if xs = [] then Inl IndexError else Inr (last xs))"

definition py_first :: "'a list \<Rightarrow> py_error + 'a" where
  "py_first xs = (case xs of [] \<Rightarrow> Inl IndexError | x # _ \<Rightarrow> Inr x)"

text \<open>\<^verbatim>\<open>s.lower()\<close> on ASCII letters.\<close>

definition lower_char :: "char \<Rightarrow> char" where
  "lower_char c =
     (case map_of (zip ''ABCDEFGHIJKLMNOPQRSTUVWXYZ'' ''abcdefghijklmnopqrstuvwxyz'') c of
        None \<Rightarrow> c
      | Some l \<Rightarrow> l)"

definition py_lower :: "string \<Rightarrow> string" where
  "py_lower s = map lower_char s"

subsection \<open>Integers and their decimal strings\<close>

definition digit_chars :: "char list" where
  "digit_chars = ''0123456789''"

definition digit_char :: "nat \<Rightarrow> char" where
  "digit_char d = digit_chars ! (d mod 10)"

definition digit_val :: "char \<Rightarrow> nat option" where
  "digit_val c = map_of (zip digit_chars [0, 1, 2, 3, 4, 5, 6, 7, 8, 9]) c"

fun digits_of_nat :: "nat \<Rightarrow> string" where
  "digits_of_nat n =
     (if n < 10 then [digit_char n] else digits_of_nat (n div 10) @ [digit_char (n mod 10)])"

declare digits_of_nat.simps [simp del]

text \<open>\<^verbatim>\<open>str(i)\<close> of an integer.\<close>

definition py_str :: "int \<Rightarrow> string" where
  "py_str i = (if i < 0 then CHR ''-'' # digits_of_nat (nat (- i)) else digits_of_nat (nat i))"

text \<open>
  \<^verbatim>\<open>int(s)\<close> of a string, on ASCII: surrounding whitespace is dropped, one sign is
  allowed, then decimal digits follow, where single underscores may stand between two
  digits. Anything else is a ValueError, the \<open>None\<close> of \<open>py_int\<close>. The limit Python
  puts on the number of digits is far above any sequence number and is left out.
\<close>

definition is_space :: "char \<Rightarrow> bool" where
  "is_space c = (c = CHR '' '' \<or> (let n = (of_char c :: nat) in (9 \<le> n \<and> n \<le> 13) \<or> (28 \<le> n \<and> n \<le> 31)))"

definition py_strip :: "string \<Rightarrow> string" where
  "py_strip s = rev (dropWhile is_space (rev (dropWhile is_space s)))"

fun digits_val :: "string \<Rightarrow> nat \<Rightarrow> nat option" where
  "digits_val [] acc = Some acc"
| "digits_val (c # cs) acc =
     (case digit_val c of
        Some d \<Rightarrow> digits_val cs (10 * acc + d)
      | None \<Rightarrow>
          (if c = CHR ''_'' then
             (case cs of
                [] \<Rightarrow> None
              | c' # cs' \<Rightarrow> (case digit_val c' of None \<Rightarrow> None | Some d \<Rightarrow> digits_val cs' (10 * acc + d)))
           else None))"

definition unsigned_val :: "string \<Rightarrow> nat option" where
  "unsigned_val s =
     (case s of
        [] \<Rightarrow> None
      | c # cs \<Rightarrow> (case digit_val c of None \<Rightarrow> None | Some d \<Rightarrow> digits_val cs d))"

definition py_int :: "string \<Rightarrow> int option" where
  "py_int s =
     (case py_strip s of
        [] \<Rightarrow> None
      | c # cs \<Rightarrow>
          (if c = CHR ''-'' then map_option (\<lambda>n. - int n) (unsigned_val cs)
           else if c = CHR ''+'' then map_option int (unsigned_val cs)
           else map_option int (unsigned_val (c # cs))))"

section \<open>The world of a run\<close>

subsection \<open>Upstream API\<close>

text \<open>
  What the upstream API answers during one run. \<open>None\<close> is a request that failed
  (transport error, HTTP status, unparsable body). The bootstrap endpoint is read twice
  over: through \<^verbatim>\<open>call_fpl_api\<close> by the extractors, which only slice the payload, and
  directly by \<^verbatim>\<open>get_current_gameweek\<close> and \<^verbatim>\<open>get_latest_finished_gameweek\<close>, which
  read the \<^verbatim>\<open>events\<close> list: each event with an integer \<^verbatim>\<open>id\<close> and the flags
  \<^verbatim>\<open>is_current\<close>, \<^verbatim>\<open>finished\<close>, \<^verbatim>\<open>data_checked\<close>. Both functions catch every
  exception, so a payload without that shape is the \<open>None\<close> of \<open>events_response\<close>.
\<close>

record event =
  event_id :: int
  is_current :: bool
  finished :: bool
  data_checked :: bool

record upstream =
  events_response :: "event list option"
  bootstrap_response :: "jval option"
  fixtures_response :: "int option \<Rightarrow> jval option"
  live_response :: "int \<Rightarrow> jval option"

subsection \<open>Environment, bucket, ledger, log\<close>

text \<open>
  The environment of a run: the upstream API, the clock (\<^verbatim>\<open>strftime\<close> of day, month
  and year, and the ISO timestamp), whether the warehouse answers the watermark query,
  and whether it inserts the audit row, returns insert errors or raises. The storage
  bucket is taken to be reliable.
\<close>

datatype bq_insert_outcome = Inserted | Rejected | Raised

record env =
  api :: upstream
  now_day :: string
  now_month :: string
  now_year :: string
  now_iso :: string
  bq_query_ok :: bool
  bq_insert :: bq_insert_outcome

text \<open>
  Modelled from the spec: the schema of the audit ledger, whose table definition is not
  part of the sources. Audit ledger schema \<^verbatim>\<open>{data_source, tablename, load_type,
  record_count, load_watermark (string or null), load_timestamp (ISO-8601), status}\<close>;
  \<^verbatim>\<open>write_audit_log\<close> stores
  \<^verbatim>\<open>str(watermark_value)\<close> and \<^verbatim>\<open>get_latest_watermark\<close> converts back with \<^verbatim>\<open>int\<close>.
\<close>

record audit_entry =
  data_source :: string
  tablename :: string
  load_type :: string
  record_count :: nat
  load_watermark :: "string option"
  load_timestamp :: string
  status :: string

text \<open>The messages of \<^verbatim>\<open>log_event\<close>, each with the values its f-string prints.\<close>

datatype message =
    Calling_FPL_API string
  | API_call_failed string
  | Data_extracted string
  | Live_data_extracted int
  | No_existing_files string
  | Archived string string
  | Failed_to_get_finished_gameweek
  | No_data_to_save string
  | Records_saved nat string
  | Audit_insert_errors
  | Audit_log_updated string
  | Failed_to_write_audit_log string
  | Starting_extraction string string
  | Last_loaded_gameweek string int
  | Extracting string int
  | No_new_data string int
  | No_extractor_found string
  | Completed_extraction string
  | Error_processing string py_error
  | Processing string string

record log_entry =
  event_type :: string
  msg :: message
  table_of :: "string option"

text \<open>
  The state a run changes: the bucket (blob name to content, a landing object being
  the list of its records, one JSON line each), the audit ledger, the module-level
  \<^verbatim>\<open>_bootstrap_cache\<close> and the in-memory log list.
\<close>

record world =
  gcs :: "(string \<times> jval list) list"
  audit_log :: "audit_entry list"
  bootstrap_cache :: "jval option"
  log_entries :: "log_entry list"

definition DATA_SOURCE :: string where
  "DATA_SOURCE = ''fpl-api''"

definition FPL_BASE_URL :: string where
  "FPL_BASE_URL = ''https://fantasy.premierleague.com/api/''"

definition log_event :: "string \<Rightarrow> message \<Rightarrow> string option \<Rightarrow> world \<Rightarrow> world" where
  "log_event ty m t w =
     w\<lparr>log_entries := log_entries w @ [\<lparr>event_type = ty, msg = m, table_of = t\<rparr>]\<rparr>"

subsection \<open>Bucket operations\<close>

definition blob_content :: "world \<Rightarrow> string \<Rightarrow> jval list option" where
  "blob_content w name = map_of (gcs w) name"

fun put_blob :: "string \<Rightarrow> jval list \<Rightarrow> (string \<times> jval list) list \<Rightarrow> (string \<times> jval list) list" where
  "put_blob name c [] = [(name, c)]"
| "put_blob name c (p # ps) = (if fst p = name then (name, c) # ps else p # put_blob name c ps)"

definition upload :: "string \<Rightarrow> jval list \<Rightarrow> world \<Rightarrow> world" where
  "upload name c w = w\<lparr>gcs := put_blob name c (gcs w)\<rparr>"

definition delete_blob :: "string \<Rightarrow> world \<Rightarrow> world" where
  "delete_blob name w = w\<lparr>gcs := filter (\<lambda>p. fst p \<noteq> name) (gcs w)\<rparr>"

text \<open>\<^verbatim>\<open>copy_blob\<close> of a listed blob; a name that is not in the bucket copies nothing.\<close>

definition copy_blob :: "string \<Rightarrow> string \<Rightarrow> world \<Rightarrow> world" where
  "copy_blob src dst w = (case blob_content w src of None \<Rightarrow> w | Some c \<Rightarrow> upload dst c w)"

text \<open>\<^verbatim>\<open>list_blobs(prefix=...)\<close>: the names with the prefix, in name order.\<close>

definition list_blobs :: "string \<Rightarrow> world \<Rightarrow> string list" where
  "list_blobs prefix w = sort (filter (\<lambda>n. startswith n prefix) (map fst (gcs w)))"

section \<open>API client and extractors\<close>

text \<open>The functions of \<^verbatim>\<open>src/scripts/fpl_api.py\<close>.\<close>

datatype request = Bootstrap_static | Fixtures "int option" | Event_live int

fun endpoint :: "request \<Rightarrow> string" where
  "endpoint Bootstrap_static = ''/bootstrap-static/''"
| "endpoint (Fixtures params) = ''/fixtures/''"
| "endpoint (Event_live gameweek) = ''/event/'' @ py_str gameweek @ ''/live/''"

fun respond :: "upstream \<Rightarrow> request \<Rightarrow> jval option" where
  "respond up Bootstrap_static = bootstrap_response up"
| "respond up (Fixtures params) = fixtures_response up params"
| "respond up (Event_live gameweek) = live_response up gameweek"

text \<open>A failed request is logged and returns \<^verbatim>\<open>None\<close>; no exception leaves the call.\<close>

definition call_fpl_api :: "upstream \<Rightarrow> request \<Rightarrow> world \<Rightarrow> jval option \<times> world" where
  "call_fpl_api up rq w =
     (let url = FPL_BASE_URL @ endpoint rq;
          w1 = log_event ''INFO'' (Calling_FPL_API url) None w
      in case respond up rq of
           None \<Rightarrow> (None, log_event ''ERROR'' (API_call_failed url) None w1)
         | Some data \<Rightarrow> (Some data, w1))"

text \<open>Python's \<^verbatim>\<open>None\<close> is both a failed call and a JSON \<^verbatim>\<open>null\<close> body.\<close>

definition is_none :: "jval option \<Rightarrow> bool" where
  "is_none x = (x = None \<or> x = Some JNull)"

definition truthy_opt :: "jval option \<Rightarrow> bool" where
  "truthy_opt x = (case x of None \<Rightarrow> False | Some d \<Rightarrow> truthy d)"

definition get_bootstrap_data :: "upstream \<Rightarrow> world \<Rightarrow> jval option \<times> world" where
  "get_bootstrap_data up w =
     (if is_none (bootstrap_cache w) then
        (case call_fpl_api up Bootstrap_static w of
           (data, w1) \<Rightarrow> (data, w1\<lparr>bootstrap_cache := data\<rparr>))
      else (bootstrap_cache w, w))"

text \<open>
  \<^verbatim>\<open>extract_players\<close>, \<^verbatim>\<open>extract_player_positions\<close>, \<^verbatim>\<open>extract_teams\<close> and
  \<^verbatim>\<open>extract_gameweeks\<close> have one body, up to the log text and the field they slice.
\<close>

definition extract_bootstrap_field ::
  "string \<Rightarrow> string \<Rightarrow> upstream \<Rightarrow> world \<Rightarrow> (py_error + jval) \<times> world" where
  "extract_bootstrap_field what field up w =
     (case get_bootstrap_data up w of
        (data, w1) \<Rightarrow>
          (case data of
             None \<Rightarrow> (Inr (JArr []), w1)
           | Some d \<Rightarrow>
               (if truthy d then
                  (py_get_or_empty d field, log_event ''INFO'' (Data_extracted what) None w1)
                else (Inr (JArr []), w1))))"

definition extract_players :: "upstream \<Rightarrow> world \<Rightarrow> (py_error + jval) \<times> world" where
  "extract_players = extract_bootstrap_field ''Player'' ''elements''"

definition extract_player_positions :: "upstream \<Rightarrow> world \<Rightarrow> (py_error + jval) \<times> world" where
  "extract_player_positions = extract_bootstrap_field ''Player positions'' ''element_types''"

definition extract_teams :: "upstream \<Rightarrow> world \<Rightarrow> (py_error + jval) \<times> world" where
  "extract_teams = extract_bootstrap_field ''Team'' ''teams''"

definition extract_gameweeks :: "upstream \<Rightarrow> world \<Rightarrow> (py_error + jval) \<times> world" where
  "extract_gameweeks = extract_bootstrap_field ''Gameweek'' ''events''"

definition extract_fixtures ::
  "int option \<Rightarrow> upstream \<Rightarrow> world \<Rightarrow> (py_error + jval) \<times> world" where
  "extract_fixtures gameweek up w =
     (let params = (case gameweek of None \<Rightarrow> None | Some g \<Rightarrow> if g \<noteq> 0 then Some g else None)
      in case call_fpl_api up (Fixtures params) w of
           (data, w1) \<Rightarrow>
             (case data of
                None \<Rightarrow> (Inr (JArr []), w1)
              | Some d \<Rightarrow> (Inr (if truthy d then d else JArr []), w1)))"

text \<open>
  The body of the loop of \<^verbatim>\<open>extract_gameweek_live\<close> for one element: stamp the
  gameweek, then copy every pair of the nested \<^verbatim>\<open>stats\<close> dict to the top level, in
  the order of the dict, then delete the \<^verbatim>\<open>stats\<close> key. An element that is no dict
  cannot be assigned to; a \<^verbatim>\<open>stats\<close> value that is no dict has no \<^verbatim>\<open>items\<close>.
\<close>

definition flatten_element :: "int \<Rightarrow> jval \<Rightarrow> py_error + jval" where
  "flatten_element gameweek element =
     (case element of
        JObj d \<Rightarrow>
          (let d1 = dict_set ''gameweek'' (JInt gameweek) d
           in case dict_get d1 ''stats'' of
                None \<Rightarrow> Inr (JObj d1)
              | Some (JObj stats) \<Rightarrow>
                  Inr (JObj (dict_del ''stats'' (fold (\<lambda>kv e. dict_set (fst kv) (snd kv) e) stats d1)))
              | Some _ \<Rightarrow> Inl AttributeError)
      | _ \<Rightarrow> Inl TypeError)"

fun flatten_all :: "int \<Rightarrow> jval list \<Rightarrow> py_error + jval list" where
  "flatten_all gameweek [] = Inr []"
| "flatten_all gameweek (x # xs) =
     (case flatten_element gameweek x of
        Inl e \<Rightarrow> Inl e
      | Inr y \<Rightarrow> (case flatten_all gameweek xs of Inl e \<Rightarrow> Inl e | Inr ys \<Rightarrow> Inr (y # ys)))"

text \<open>
  The loop over \<^verbatim>\<open>elements\<close> changes the elements in place and the function returns
  the same object: a list of the flattened elements, or the empty dict or string the
  loop had nothing to do on.
\<close>

definition flatten_elements :: "int \<Rightarrow> jval \<Rightarrow> py_error + jval" where
  "flatten_elements gameweek elements =
     (case py_iter elements of
        Inl e \<Rightarrow> Inl e
      | Inr items \<Rightarrow>
          (case flatten_all gameweek items of
             Inl e \<Rightarrow> Inl e
           | Inr items' \<Rightarrow> Inr (case elements of JArr _ \<Rightarrow> JArr items' | other \<Rightarrow> other)))"

definition extract_gameweek_live ::
  "int \<Rightarrow> upstream \<Rightarrow> world \<Rightarrow> (py_error + jval) \<times> world" where
  "extract_gameweek_live gameweek up w =
     (case call_fpl_api up (Event_live gameweek) w of
        (data, w1) \<Rightarrow>
          (case data of
             None \<Rightarrow> (Inr (JArr []), w1)
           | Some d \<Rightarrow>
               (if truthy d then
                  (let w2 = log_event ''INFO'' (Live_data_extracted gameweek) None w1
                   in case py_get_or_empty d ''elements'' of
                        Inl e \<Rightarrow> (Inl e, w2)
                      | Inr elements \<Rightarrow> (flatten_elements gameweek elements, w2))
                else (Inr (JArr []), w1))))"

section \<open>Watermark, landing and audit\<close>

text \<open>The functions of \<^verbatim>\<open>src/scripts/utility.py\<close>.\<close>

type_synonym extractor = "int \<Rightarrow> upstream \<Rightarrow> world \<Rightarrow> (py_error + jval) \<times> world"

definition EXTRACTION_MAP :: "string \<Rightarrow> extractor option" where
  "EXTRACTION_MAP = map_of
     [(''players'', \<lambda>_. extract_players),
      (''positions'', \<lambda>_. extract_player_positions),
      (''teams'', \<lambda>_. extract_teams),
      (''gameweeks'', \<lambda>_. extract_gameweeks),
      (''fixtures'', \<lambda>_. extract_fixtures None),
      (''gameweek_live'', \<lambda>gw. extract_gameweek_live gw)]"

subsection \<open>Archive\<close>

text \<open>
  The \<^verbatim>\<open>try\<close> block of \<^verbatim>\<open>move_existing_files_to_archive\<close>: the text after the last
  underscore, up to its first dot, cut into two, two and the remaining characters.
\<close>

definition date_parts :: "string \<Rightarrow> py_error + (string \<times> string \<times> string)" where
  "date_parts file =
     (case py_last (py_split CHR ''_'' file) of
        Inl e \<Rightarrow> Inl e
      | Inr tail \<Rightarrow>
          (case py_first (py_split CHR ''.'' tail) of
             Inl e \<Rightarrow> Inl e
           | Inr date_part \<Rightarrow> Inr (take 2 date_part, take 2 (drop 2 date_part), drop 4 date_part)))"

text \<open>The \<^verbatim>\<open>except (IndexError, ValueError)\<close> branch takes the parts from the clock.\<close>

definition archive_path_of :: "env \<Rightarrow> string \<Rightarrow> string \<Rightarrow> string" where
  "archive_path_of e table file =
     (case (case date_parts file of
              Inr dmy \<Rightarrow> dmy
            | Inl _ \<Rightarrow> (now_day e, now_month e, now_year e)) of
        (day, month, year) \<Rightarrow>
          ''landing/'' @ DATA_SOURCE @ ''/archive/'' @ table @ ''/'' @ year @ ''/'' @ month
            @ ''/'' @ day @ ''/'' @ last (py_split CHR ''/'' file))"

fun archive_files :: "env \<Rightarrow> string \<Rightarrow> string list \<Rightarrow> world \<Rightarrow> world" where
  "archive_files e table [] w = w"
| "archive_files e table (file # files) w =
     (if py_in ''/archive/'' file then archive_files e table files w
      else
        (let archive_path = archive_path_of e table file;
             w1 = copy_blob file archive_path w;
             w2 = delete_blob file w1;
             w3 = log_event ''INFO'' (Archived file archive_path) (Some table) w2
         in archive_files e table files w3))"

definition move_existing_files_to_archive :: "env \<Rightarrow> string \<Rightarrow> world \<Rightarrow> world" where
  "move_existing_files_to_archive e table w =
     (let blobs = list_blobs (''landing/'' @ DATA_SOURCE @ ''/'' @ table @ ''/'') w;
          existing_files = filter (\<lambda>name. endswith name ''.json'') blobs
      in if existing_files = [] then log_event ''INFO'' (No_existing_files table) (Some table) w
         else archive_files e table existing_files w)"

subsection \<open>Watermark\<close>

text \<open>\<^verbatim>\<open>MAX\<close> over a string column: the greatest non-null string, null if there is none.\<close>

definition max_step :: "string option \<Rightarrow> string option \<Rightarrow> string option" where
  "max_step cell acc =
     (case cell of
        None \<Rightarrow> acc
      | Some s \<Rightarrow> (case acc of None \<Rightarrow> Some s | Some m \<Rightarrow> Some (max m s)))"

definition sql_max :: "string option list \<Rightarrow> string option" where
  "sql_max cells = fold max_step cells None"

definition watermark_cells :: "world \<Rightarrow> string \<Rightarrow> string option list" where
  "watermark_cells w table_name =
     map load_watermark
       (filter (\<lambda>a. tablename a = table_name \<and> data_source a = DATA_SOURCE) (audit_log w))"

text \<open>
  The table name is spliced into the text of the query; it is taken to be free of
  quotes, backslashes and line breaks, so that the \<^verbatim>\<open>WHERE\<close> clause compares names.
  The one row of the aggregate query is converted by
  \<^verbatim>\<open>int(row.latest_watermark) if row.latest_watermark else 0\<close>; a failing query and a
  failing conversion are caught alike and give 0.
\<close>

definition watermark_of_cell :: "string option \<Rightarrow> int" where
  "watermark_of_cell cell =
     (case cell of
        None \<Rightarrow> 0
      | Some s \<Rightarrow> (if s = [] then 0 else (case py_int s of None \<Rightarrow> 0 | Some n \<Rightarrow> n)))"

definition get_latest_watermark :: "env \<Rightarrow> world \<Rightarrow> string \<Rightarrow> int" where
  "get_latest_watermark e w table_name =
     (if bq_query_ok e then watermark_of_cell (sql_max (watermark_cells w table_name)) else 0)"

definition get_current_gameweek :: "upstream \<Rightarrow> int option" where
  "get_current_gameweek up =
     (case events_response up of
        None \<Rightarrow> None
      | Some events \<Rightarrow>
          (case filter is_current events of
             ev # _ \<Rightarrow> Some (event_id ev)
           | [] \<Rightarrow>
               (let finished_events = filter finished events
                in if finished_events = [] then Some 1 else Some (event_id (last finished_events)))))"

definition get_latest_finished_gameweek :: "upstream \<Rightarrow> world \<Rightarrow> int \<times> world" where
  "get_latest_finished_gameweek up w =
     (case events_response up of
        None \<Rightarrow> (0, log_event ''ERROR'' Failed_to_get_finished_gameweek None w)
      | Some events \<Rightarrow>
          (let finished_events = filter (\<lambda>ev. finished ev \<and> data_checked ev) events
           in (if finished_events = [] then 0 else event_id (last finished_events), w)))"

subsection \<open>Landing and audit\<close>

definition landing_path :: "env \<Rightarrow> string \<Rightarrow> string" where
  "landing_path e table =
     ''landing/'' @ DATA_SOURCE @ ''/'' @ table @ ''/'' @ table @ ''_''
       @ (now_day e @ now_month e @ now_year e) @ ''.json''"

text \<open>
  \<^verbatim>\<open>save_to_landing\<close>: nothing is written for data that is not truthy; otherwise
  every record of the data (what iterating it yields) becomes one line of the object.
\<close>

definition save_to_landing :: "env \<Rightarrow> string \<Rightarrow> jval \<Rightarrow> world \<Rightarrow> (py_error + nat) \<times> world" where
  "save_to_landing e table data w =
     (if \<not> truthy data then (Inr 0, log_event ''WARNING'' (No_data_to_save table) (Some table) w)
      else
        (case py_iter data of
           Inl err \<Rightarrow> (Inl err, w)
         | Inr records \<Rightarrow>
             (let json_file_path = landing_path e table;
                  w1 = upload json_file_path records w;
                  count = length records
              in (Inr count,
                  log_event ''SUCCESS'' (Records_saved count json_file_path) (Some table) w1))))"

definition audit_record :: "env \<Rightarrow> string \<Rightarrow> string \<Rightarrow> nat \<Rightarrow> int \<Rightarrow> audit_entry" where
  "audit_record e table lt count watermark_value =
     \<lparr>data_source = DATA_SOURCE,
      tablename = table,
      load_type = lt,
      record_count = count,
      load_watermark = (if watermark_value \<noteq> 0 then Some (py_str watermark_value) else None),
      load_timestamp = now_iso e,
      status = ''SUCCESS''\<rparr>"

definition write_audit_log :: "env \<Rightarrow> string \<Rightarrow> string \<Rightarrow> nat \<Rightarrow> int \<Rightarrow> world \<Rightarrow> world" where
  "write_audit_log e table lt count watermark_value w =
     (case bq_insert e of
        Inserted \<Rightarrow>
          log_event ''SUCCESS'' (Audit_log_updated table) (Some table)
            (w\<lparr>audit_log := audit_log w @ [audit_record e table lt count watermark_value]\<rparr>)
      | Rejected \<Rightarrow> log_event ''ERROR'' Audit_insert_errors (Some table) w
      | Raised \<Rightarrow> log_event ''ERROR'' (Failed_to_write_audit_log table) (Some table) w)"

subsection \<open>The orchestrator\<close>

text \<open>\<^verbatim>\<open>range(a, b)\<close>.\<close>

function py_range :: "int \<Rightarrow> int \<Rightarrow> int list" where
  "py_range a b = (if a < b then a # py_range (a + 1) b else [])"
  by pat_completeness auto
termination
  by (relation "measure (\<lambda>(a, b). nat (b - a))") auto

declare py_range.simps [simp del]

text \<open>
  The \<^verbatim>\<open>for gw in range(...)\<close> loop of the incremental branch, with \<^verbatim>\<open>all_data\<close> as
  accumulator. An exception of an extractor, or of \<^verbatim>\<open>extend\<close> on what it returned,
  ends the loop.
\<close>

fun extend_loop ::
  "string \<Rightarrow> upstream \<Rightarrow> int list \<Rightarrow> jval list \<Rightarrow> world \<Rightarrow> (py_error + jval list) \<times> world" where
  "extend_loop table up [] all_data w = (Inr all_data, w)"
| "extend_loop table up (gw # gws) all_data w =
     (let w1 = log_event ''INFO'' (Extracting table gw) (Some table) w
      in case EXTRACTION_MAP table of
           None \<Rightarrow> extend_loop table up gws all_data w1
         | Some extractor \<Rightarrow>
             (case extractor gw up w1 of
                (Inl err, w2) \<Rightarrow> (Inl err, w2)
              | (Inr gw_data, w2) \<Rightarrow>
                  (case py_iter gw_data of
                     Inl err \<Rightarrow> (Inl err, w2)
                   | Inr xs \<Rightarrow> extend_loop table up gws (all_data @ xs) w2)))"

datatype outcome = Completed | No_new_data_since int | No_extractor | Failed py_error

definition failed :: "string \<Rightarrow> py_error \<Rightarrow> world \<Rightarrow> outcome \<times> world" where
  "failed table err w = (Failed err, log_event ''ERROR'' (Error_processing table err) (Some table) w)"

definition extract_incremental :: "env \<Rightarrow> string \<Rightarrow> string \<Rightarrow> int \<Rightarrow> world \<Rightarrow> outcome \<times> world" where
  "extract_incremental e table lt current_gameweek w =
     (let last_watermark = get_latest_watermark e w table;
          w1 = log_event ''INFO'' (Last_loaded_gameweek table last_watermark) (Some table) w
      in case extend_loop table (api e) (py_range (last_watermark + 1) (current_gameweek + 1)) [] w1 of
           (Inl err, w2) \<Rightarrow> failed table err w2
         | (Inr all_data, w2) \<Rightarrow>
             (if all_data = [] then
                (No_new_data_since last_watermark,
                 log_event ''INFO'' (No_new_data table last_watermark) (Some table) w2)
              else
                (case save_to_landing e table (JArr all_data) w2 of
                   (Inl err, w3) \<Rightarrow> failed table err w3
                 | (Inr count, w3) \<Rightarrow>
                     (case get_latest_finished_gameweek (api e) w3 of
                        (latest_finished_gw, w4) \<Rightarrow>
                          (Completed,
                           log_event ''SUCCESS'' (Completed_extraction table) (Some table)
                             (write_audit_log e table lt count latest_finished_gw w4))))))"

definition extract_full :: "env \<Rightarrow> string \<Rightarrow> string \<Rightarrow> int \<Rightarrow> world \<Rightarrow> outcome \<times> world" where
  "extract_full e table lt current_gameweek w =
     (case EXTRACTION_MAP table of
        None \<Rightarrow> (No_extractor, log_event ''ERROR'' (No_extractor_found table) (Some table) w)
      | Some extractor \<Rightarrow>
          (case extractor current_gameweek (api e) w of
             (Inl err, w1) \<Rightarrow> failed table err w1
           | (Inr data, w1) \<Rightarrow>
               (case save_to_landing e table data w1 of
                  (Inl err, w2) \<Rightarrow> failed table err w2
                | (Inr count, w2) \<Rightarrow>
                    (Completed,
                     log_event ''SUCCESS'' (Completed_extraction table) (Some table)
                       (write_audit_log e table lt count current_gameweek w2)))))"

text \<open>
  \<^verbatim>\<open>extract_and_save_to_landing\<close>: the incremental branch for a load type that
  lower-cases to \<^verbatim>\<open>incremental\<close>, the full branch for every other one. The
  \<^verbatim>\<open>except Exception\<close> of the function is the \<open>Failed\<close> outcome.
\<close>

definition extract_and_save_to_landing ::
  "env \<Rightarrow> string \<Rightarrow> string \<Rightarrow> int \<Rightarrow> world \<Rightarrow> outcome \<times> world" where
  "extract_and_save_to_landing e table lt current_gameweek w =
     (let w1 = log_event ''INFO'' (Starting_extraction table lt) (Some table) w
      in if py_lower lt = ''incremental'' then extract_incremental e table lt current_gameweek w1
         else extract_full e table lt current_gameweek w1)"

subsection \<open>One row of the configuration\<close>

record config_row =
  datasource :: string
  table_name :: string
  row_load_type :: string
  is_active :: string

text \<open>The body of the loop of \<^verbatim>\<open>src/pipeline.py\<close> over the configuration rows: archive,
  then extract.\<close>

definition process_row :: "env \<Rightarrow> int \<Rightarrow> config_row \<Rightarrow> world \<Rightarrow> world" where
  "process_row e current_gw row w =
     (if is_active row = ''1'' \<and> datasource row = ''fpl-api'' then
        (let table = table_name row;
             lt = row_load_type row;
             w1 = log_event ''INFO'' (Processing table lt) None w;
             w2 = move_existing_files_to_archive e table w1
         in snd (extract_and_save_to_landing e table lt current_gw w2))
      else w)"

section \<open>Notions used to state the properties\<close>

text \<open>
  The payload the bootstrap extractors work on: the cached one if there is one, what
  the API answers otherwise.
\<close>

definition eff :: "upstream \<Rightarrow> world \<Rightarrow> jval option" where
  "eff up w = (if is_none (bootstrap_cache w) then bootstrap_response up else bootstrap_cache w)"

text \<open>
  The sequence numbers the orchestrator asked a table's extractor for, read off the
  log: one \<^verbatim>\<open>Extracting {table} for gameweek {gw}\<close> entry per iteration of its loop.
\<close>

fun extracting_gw :: "string \<Rightarrow> log_entry \<Rightarrow> int list" where
  "extracting_gw table entry =
     (case msg entry of Extracting t gw \<Rightarrow> (if t = table then [gw] else []) | _ \<Rightarrow> [])"

definition requested :: "string \<Rightarrow> world \<Rightarrow> int list" where
  "requested table w = concat (map (extracting_gw table) (log_entries w))"




text \<open>The records one call of an extractor contributes to \<^verbatim>\<open>all_data\<close>.\<close>

definition records_of :: "py_error + jval \<Rightarrow> jval list" where
  "records_of r = (case r of Inl _ \<Rightarrow> [] | Inr d \<Rightarrow> (case py_iter d of Inl _ \<Rightarrow> [] | Inr xs \<Rightarrow> xs))"

text \<open>
  The batch in the spec's words: what the table's extractor returns for each sequence
  number of a range, concatenated in the order of the range.
\<close>

definition concatenated_batch :: "string \<Rightarrow> upstream \<Rightarrow> world \<Rightarrow> int list \<Rightarrow> jval list" where
  "concatenated_batch table up w gws =
     concat (map (\<lambda>gw. case EXTRACTION_MAP table of
                           None \<Rightarrow> []
                         | Some ex \<Rightarrow> records_of (fst (ex gw up w))) gws)"

text \<open>What the loop of the incremental branch ends with, from a given world.\<close>

definition fetched :: "env \<Rightarrow> string \<Rightarrow> int \<Rightarrow> world \<Rightarrow> py_error + jval list" where
  "fetched e table current_gameweek w =
     fst (extend_loop table (api e)
            (py_range (get_latest_watermark e w table + 1) (current_gameweek + 1)) [] w)"

text \<open>The identifier \<^verbatim>\<open>get_latest_finished_gameweek\<close> returns; it does not depend on the world.\<close>

definition latest_finished :: "upstream \<Rightarrow> int" where
  "latest_finished up = fst (get_latest_finished_gameweek up \<lparr>gcs = [], audit_log = [], bootstrap_cache = None, log_entries = []\<rparr>)"

text \<open>What \<^verbatim>\<open>extract_gameweek_live\<close> returns, without the log.\<close>

definition live_result :: "int \<Rightarrow> upstream \<Rightarrow> py_error + jval" where
  "live_result gw up =
     (case live_response up gw of
        None \<Rightarrow> Inr (JArr [])
      | Some d \<Rightarrow>
          (if truthy d then
             (case py_get_or_empty d ''elements'' of
                Inl e \<Rightarrow> Inl e
              | Inr elements \<Rightarrow> flatten_elements gw elements)
           else Inr (JArr [])))"

text \<open>
  The watermark in the spec's words, \<^verbatim>\<open>MAX(watermark)\<close> of the recorded integers: the
  greatest of the recorded watermark values of the dataset, 0 if there is none.
\<close>

definition max_recorded_watermark :: "world \<Rightarrow> string \<Rightarrow> int" where
  "max_recorded_watermark w table = fold max (map watermark_of_cell (watermark_cells w table)) 0"


section \<open>Example runs\<close>

definition mk_event :: "int \<Rightarrow> bool \<Rightarrow> bool \<Rightarrow> bool \<Rightarrow> event" where
  "mk_event i cur fin chk = \<lparr>event_id = i, is_current = cur, finished = fin, data_checked = chk\<rparr>"

text \<open>A live payload of one element, with the nested statistics of the spec's example.\<close>

definition live_payload :: "int \<Rightarrow> jval" where
  "live_payload player =
     JObj [(''elements'',
            JArr [JObj [(''id'', JInt player),
                        (''stats'', JObj [(''minutes'', JInt 90), (''goals_scored'', JInt 1)])]])]"

definition mk_upstream :: "event list \<Rightarrow> int list \<Rightarrow> upstream" where
  "mk_upstream evs live_gws =
     \<lparr>events_response = Some evs,
      bootstrap_response = None,
      fixtures_response = (\<lambda>_. None),
      live_response = (\<lambda>gw. if gw \<in> set live_gws then Some (live_payload gw) else None)\<rparr>"

definition mk_env :: "upstream \<Rightarrow> env" where
  "mk_env up =
     \<lparr>api = up, now_day = ''02'', now_month = ''03'', now_year = ''2025'',
      now_iso = ''2025-03-02T09:00:00'', bq_query_ok = True, bq_insert = Inserted\<rparr>"

definition ledger_of :: "string \<Rightarrow> int list \<Rightarrow> audit_entry list" where
  "ledger_of table wms = map (audit_record (mk_env (mk_upstream [] [])) table ''incremental'' 1) wms"

definition mk_world :: "(string \<times> jval list) list \<Rightarrow> audit_entry list \<Rightarrow> world" where
  "mk_world blobs ledger = \<lparr>gcs = blobs, audit_log = ledger, bootstrap_cache = None, log_entries = []\<rparr>"

text \<open>Gameweeks 3 and 4 are final, gameweek 5 is in progress; the ledger holds watermark 3.\<close>

definition ex_env :: env where
  "ex_env = mk_env (mk_upstream [mk_event 3 False True True, mk_event 4 False True True,
                                 mk_event 5 True False False] [4, 5])"






text \<open>The ledger holds watermark 10; upstream, gameweek 9 is the last final one and 11 is current.\<close>

definition regress_env :: env where
  "regress_env = mk_env (mk_upstream [mk_event 9 False True True, mk_event 10 False True False,
                                      mk_event 11 True False False] [11])"

definition regress_world :: world where
  "regress_world = mk_world [] (ledger_of ''gameweek_live'' [10])"






definition regress_run :: world where
  "regress_run = snd (extract_and_save_to_landing regress_env ''gameweek_live'' ''incremental'' 11 regress_world)"

text \<open>A bootstrap payload with two teams; the bucket holds an older landing object of the table.\<close>

definition teams_env :: env where
  "teams_env = mk_env
     \<lparr>events_response = Some [mk_event 5 True False False],
      bootstrap_response = Some (JObj [(''teams'', JArr [JObj [(''id'', JInt 1)], JObj [(''id'', JInt 2)]])]),
      fixtures_response = (\<lambda>_. None),
      live_response = (\<lambda>_. None)\<rparr>"

definition teams_world :: world where
  "teams_world = mk_world [(''landing/fpl-api/teams/teams_01012025.json'', [JObj [(''id'', JInt 0)]])]
                          (ledger_of ''teams'' [9])"

text \<open>A landing object whose name carries no date.\<close>

definition stale_world :: world where
  "stale_world = mk_world [(''landing/fpl-api/teams/teams_latest.json'', [JObj [(''id'', JInt 0)]])] []"

section \<open>Auxiliary facts\<close>

subsection \<open>Ranges, strings and integers\<close>

lemma py_range_upto: "py_range a b = [a..b - 1]"
proof (induction a b rule: py_range.induct)
  case (1 a b)
  show ?case
  proof (cases "a < b")
    case True
    with 1 show ?thesis
      by (simp add: py_range.simps[of a b] upto_rec1[of a "b - 1"])
  next
    case False
    then show ?thesis by (simp add: py_range.simps[of a b])
  qed
qed

lemma py_split_not_Nil: "py_split sep s \<noteq> []"
  by (induction s) (auto split: list.splits)

lemma date_parts_total: "\<exists>dmy. date_parts file = Inr dmy"
  by (auto simp: date_parts_def py_last_def py_first_def py_split_not_Nil split: list.splits sum.splits)

lemma digit_val_digit_char: "digit_val (digit_char d) = Some (d mod 10)"
proof -
  have "d mod 10 < 10" by simp
  then consider "d mod 10 = 0" | "d mod 10 = 1" | "d mod 10 = 2" | "d mod 10 = 3" | "d mod 10 = 4"
    | "d mod 10 = 5" | "d mod 10 = 6" | "d mod 10 = 7" | "d mod 10 = 8" | "d mod 10 = 9"
    by atomize_elim presburger
  then show ?thesis
    by cases (simp_all add: digit_char_def digit_val_def digit_chars_def)
qed

lemma digits_val_append_digit:
  "digits_val cs acc = Some n \<Longrightarrow> digits_val (cs @ [digit_char d]) acc = Some (10 * n + d mod 10)"
proof (induction cs acc rule: digits_val.induct)
  case (1 acc)
  then show ?case by (simp add: digit_val_digit_char)
next
  case (2 c cs acc)
  show ?case
  proof (cases "digit_val c")
    case (Some d')
    with 2 show ?thesis by simp
  next
    case None
    with 2 show ?thesis
      by (cases cs) (auto split: if_splits option.splits)
  qed
qed

lemma unsigned_val_digits_of_nat: "unsigned_val (digits_of_nat n) = Some n"
proof (induction n rule: digits_of_nat.induct)
  case (1 n)
  show ?case
  proof (cases "n < 10")
    case True
    then show ?thesis
      by (simp add: digits_of_nat.simps[of n] unsigned_val_def digit_val_digit_char)
  next
    case False
    with 1 have ih: "unsigned_val (digits_of_nat (n div 10)) = Some (n div 10)" by simp
    then obtain c cs where cs: "digits_of_nat (n div 10) = c # cs"
      by (cases "digits_of_nat (n div 10)") (auto simp: unsigned_val_def)
    with ih obtain d where d: "digit_val c = Some d" "digits_val cs d = Some (n div 10)"
      by (auto simp: unsigned_val_def split: option.splits)
    from d(2) have "digits_val (cs @ [digit_char (n mod 10)]) d = Some (10 * (n div 10) + n mod 10 mod 10)"
      by (rule digits_val_append_digit)
    with False cs d(1) show ?thesis
      by (simp add: digits_of_nat.simps[of n] unsigned_val_def)
  qed
qed


lemma digits_of_nat_not_Nil: "digits_of_nat n \<noteq> []"
  by (subst digits_of_nat.simps) simp

lemma digit_char_in: "digit_char d \<in> set digit_chars"
  unfolding digit_char_def by (rule nth_mem) (simp add: digit_chars_def)

lemma digits_of_nat_chars: "set (digits_of_nat n) \<subseteq> set digit_chars"
proof (induction n rule: digits_of_nat.induct)
  case (1 n)
  then show ?case
    by (subst digits_of_nat.simps) (auto simp: digit_char_in)
qed

lemma not_space_digit: "c \<in> set digit_chars \<Longrightarrow> \<not> is_space c"
  by (auto simp: digit_chars_def is_space_def)

lemma py_strip_id:
  assumes "s \<noteq> []" "\<not> is_space (hd s)" "\<not> is_space (last s)"
  shows "py_strip s = s"
proof -
  from assms have 1: "dropWhile is_space s = s" by (cases s) auto
  from assms have "rev s \<noteq> []" "\<not> is_space (hd (rev s))" by (auto simp: hd_rev)
  then have 2: "dropWhile is_space (rev s) = rev s" by (cases "rev s") auto
  show ?thesis by (simp add: py_strip_def 1 2)
qed

lemma digits_first_last:
  "hd (digits_of_nat n) \<in> set digit_chars" "last (digits_of_nat n) \<in> set digit_chars"
  using digits_of_nat_chars[of n] digits_of_nat_not_Nil[of n] by auto

lemma digit_not_sign: "c \<in> set digit_chars \<Longrightarrow> c \<noteq> CHR ''-'' \<and> c \<noteq> CHR ''+''"
  by (auto simp: digit_chars_def)

lemma py_int_py_str: "py_int (py_str i) = Some i"
proof (cases "i < 0")
  case True
  let ?ds = "digits_of_nat (nat (- i))"
  have "py_strip (CHR ''-'' # ?ds) = CHR ''-'' # ?ds"
    using digits_first_last(2)[of "nat (- i)"] digits_of_nat_not_Nil[of "nat (- i)"]
    by (intro py_strip_id) (auto simp: is_space_def dest: not_space_digit)
  with True show ?thesis
    by (simp add: py_int_def py_str_def unsigned_val_digits_of_nat)
next
  case False
  let ?ds = "digits_of_nat (nat i)"
  have strip: "py_strip ?ds = ?ds"
    using digits_first_last[of "nat i"] digits_of_nat_not_Nil[of "nat i"]
    by (intro py_strip_id) (auto dest: not_space_digit)
  obtain c cs where cs: "?ds = c # cs"
    using digits_of_nat_not_Nil[of "nat i"] by (cases ?ds) auto
  with digits_first_last(1)[of "nat i"] have "c \<noteq> CHR ''-''" "c \<noteq> CHR ''+''"
    using digit_not_sign by auto
  with False strip cs unsigned_val_digits_of_nat[of "nat i"] show ?thesis
    by (simp add: py_int_def py_str_def)
qed

lemma py_str_not_Nil: "py_str i \<noteq> []"
  by (simp add: py_str_def digits_of_nat_not_Nil)

lemma watermark_of_cell_py_str [simp]: "watermark_of_cell (Some (py_str v)) = v"
  by (simp add: watermark_of_cell_def py_int_py_str py_str_not_Nil)

lemma watermark_of_cell_None [simp]: "watermark_of_cell None = 0"
  by (simp add: watermark_of_cell_def)

lemma watermark_of_cell_audit_record:
  "watermark_of_cell (load_watermark (audit_record e table lt n v)) = v"
  by (simp add: watermark_of_cell_def audit_record_def py_int_py_str py_str_not_Nil)

subsection \<open>The maximum of a string column\<close>





lemma sql_max_append: "sql_max (cells @ [c]) = max_step c (sql_max cells)"
  by (simp add: sql_max_def)

subsection \<open>What the extractors leave unchanged\<close>

lemma log_event_fields [simp]:
  "gcs (log_event ty m t w) = gcs w"
  "audit_log (log_event ty m t w) = audit_log w"
  "bootstrap_cache (log_event ty m t w) = bootstrap_cache w"
  "log_entries (log_event ty m t w) = log_entries w @ [\<lparr>event_type = ty, msg = m, table_of = t\<rparr>]"
  by (simp_all add: log_event_def)

lemma eff_log_event [simp]: "eff up (log_event ty m t w) = eff up w"
  by (simp add: eff_def)

lemma requested_log_event:
  "requested table (log_event ty m t w) =
     requested table w @ (case m of Extracting t' gw \<Rightarrow> (if t' = table then [gw] else []) | _ \<Rightarrow> [])"
  by (simp add: requested_def)

lemma call_fpl_api_props:
  "fst (call_fpl_api up rq w) = respond up rq"
  "gcs (snd (call_fpl_api up rq w)) = gcs w"
  "audit_log (snd (call_fpl_api up rq w)) = audit_log w"
  "bootstrap_cache (snd (call_fpl_api up rq w)) = bootstrap_cache w"
  "requested t (snd (call_fpl_api up rq w)) = requested t w"
  by (auto simp: call_fpl_api_def Let_def requested_log_event split: option.splits)

lemma get_bootstrap_data_props:
  "fst (get_bootstrap_data up w) = eff up w"
  "gcs (snd (get_bootstrap_data up w)) = gcs w"
  "audit_log (snd (get_bootstrap_data up w)) = audit_log w"
  "eff up (snd (get_bootstrap_data up w)) = eff up w"
  "requested t (snd (get_bootstrap_data up w)) = requested t w"
  using call_fpl_api_props(5)[where up=up and rq=Bootstrap_static and w=w and t=t]
  by (auto simp: get_bootstrap_data_def eff_def split_beta call_fpl_api_props requested_def)

lemma extract_bootstrap_field_fst:
  "fst (extract_bootstrap_field what field up w) =
     (case eff up w of
        None \<Rightarrow> Inr (JArr [])
      | Some d \<Rightarrow> if truthy d then py_get_or_empty d field else Inr (JArr []))"
  by (auto simp: extract_bootstrap_field_def split_beta get_bootstrap_data_props split: option.splits)

lemma extract_bootstrap_field_snd:
  "gcs (snd (extract_bootstrap_field what field up w)) = gcs w"
  "audit_log (snd (extract_bootstrap_field what field up w)) = audit_log w"
  "eff up (snd (extract_bootstrap_field what field up w)) = eff up w"
  "requested t (snd (extract_bootstrap_field what field up w)) = requested t w"
  by (auto simp: extract_bootstrap_field_def split_beta get_bootstrap_data_props requested_log_event
      split: option.splits)

lemma extract_fixtures_fst:
  "fst (extract_fixtures None up w) =
     (case fixtures_response up None of
        None \<Rightarrow> Inr (JArr [])
      | Some d \<Rightarrow> Inr (if truthy d then d else JArr []))"
  by (auto simp: extract_fixtures_def split_beta call_fpl_api_props split: option.splits)

lemma extract_fixtures_snd:
  "gcs (snd (extract_fixtures None up w)) = gcs w"
  "audit_log (snd (extract_fixtures None up w)) = audit_log w"
  "eff up (snd (extract_fixtures None up w)) = eff up w"
  "requested t (snd (extract_fixtures None up w)) = requested t w"
  by (auto simp: extract_fixtures_def split_beta call_fpl_api_props eff_def split: option.splits)

lemma extract_gameweek_live_fst: "fst (extract_gameweek_live gw up w) = live_result gw up"
  by (auto simp: extract_gameweek_live_def live_result_def Let_def split_beta call_fpl_api_props
      split: option.splits sum.splits)

lemma extract_gameweek_live_snd:
  "gcs (snd (extract_gameweek_live gw up w)) = gcs w"
  "audit_log (snd (extract_gameweek_live gw up w)) = audit_log w"
  "eff up (snd (extract_gameweek_live gw up w)) = eff up w"
  "requested t (snd (extract_gameweek_live gw up w)) = requested t w"
  by (auto simp: extract_gameweek_live_def Let_def split_beta call_fpl_api_props eff_def
      requested_log_event split: option.splits sum.splits)

lemma EXTRACTION_MAP_cases:
  assumes "EXTRACTION_MAP table = Some ex"
  obtains what field where "ex = (\<lambda>_. extract_bootstrap_field what field)"
  | "ex = (\<lambda>_. extract_fixtures None)"
  | "ex = (\<lambda>gw. extract_gameweek_live gw)"
  using assms
  by (auto simp: EXTRACTION_MAP_def extract_players_def extract_player_positions_def
      extract_teams_def extract_gameweeks_def split: if_splits)

text \<open>
  Every registered extractor leaves bucket and ledger alone, adds no \<^verbatim>\<open>Extracting\<close>
  entry of its own, and returns what the upstream answers and the effective bootstrap
  payload determine, without changing that payload.
\<close>

lemma steadyD:
  assumes "EXTRACTION_MAP table = Some ex"
  shows "gcs (snd (ex gw up w)) = gcs w"
    and "audit_log (snd (ex gw up w)) = audit_log w"
    and "eff up (snd (ex gw up w)) = eff up w"
    and "requested t (snd (ex gw up w)) = requested t w"
    and "eff up w' = eff up w \<Longrightarrow> fst (ex gw up w') = fst (ex gw up w)"
  by (rule EXTRACTION_MAP_cases[OF assms];
      simp add: extract_bootstrap_field_fst extract_bootstrap_field_snd extract_fixtures_fst
        extract_fixtures_snd extract_gameweek_live_fst extract_gameweek_live_snd)+

lemma extend_loop_frame:
  "gcs (snd (extend_loop table up gws acc w)) = gcs w
   \<and> audit_log (snd (extend_loop table up gws acc w)) = audit_log w
   \<and> eff up (snd (extend_loop table up gws acc w)) = eff up w"
proof (induction gws arbitrary: acc w)
  case Nil
  show ?case by simp
next
  case (Cons gw gws)
  show ?case
  proof (cases "EXTRACTION_MAP table")
    case None
    then show ?thesis using Cons.IH by (simp add: Let_def)
  next
    case (Some ex)
    then show ?thesis
      using Cons.IH by (simp add: Let_def split_beta steadyD(1-3)[OF Some] split: sum.splits)
  qed
qed

lemma extend_loop_fst_cong:
  "eff up w' = eff up w \<Longrightarrow>
   fst (extend_loop table up gws acc w') = fst (extend_loop table up gws acc w)"
proof (induction gws arbitrary: acc w w')
  case Nil
  show ?case by simp
next
  case (Cons gw gws)
  let ?l = "\<lambda>w. log_event ''INFO'' (Extracting table gw) (Some table) w"
  have e: "eff up (?l w') = eff up (?l w)" using Cons.prems by simp
  show ?case
  proof (cases "EXTRACTION_MAP table")
    case None
    then show ?thesis using Cons.IH[OF e] by (simp add: Let_def)
  next
    case (Some ex)
    have f: "fst (ex gw up (?l w')) = fst (ex gw up (?l w))"
      by (rule steadyD(5)[OF Some e])
    have "eff up (snd (ex gw up (?l w'))) = eff up (snd (ex gw up (?l w)))"
      using e by (simp add: steadyD(3)[OF Some])
    from Cons.IH[OF this] Some f show ?thesis
      by (simp add: Let_def split_beta split: sum.splits)
  qed
qed

lemma concatenated_batch_Cons:
  "concatenated_batch table up w (gw # gws) =
     (case EXTRACTION_MAP table of None \<Rightarrow> [] | Some ex \<Rightarrow> records_of (fst (ex gw up w)))
       @ concatenated_batch table up w gws"
  by (simp add: concatenated_batch_def)

lemma extend_loop_batch:
  "fst (extend_loop table up gws acc w) = Inr batch \<Longrightarrow> eff up w0 = eff up w \<Longrightarrow>
   batch = acc @ concatenated_batch table up w0 gws
   \<and> requested table (snd (extend_loop table up gws acc w)) = requested table w @ gws"
proof (induction gws arbitrary: acc w)
  case Nil
  then show ?case by (simp add: concatenated_batch_def)
next
  case (Cons gw gws)
  let ?w1 = "log_event ''INFO'' (Extracting table gw) (Some table) w"
  have r1: "requested table ?w1 = requested table w @ [gw]"
    by (simp add: requested_log_event)
  have e1: "eff up w0 = eff up ?w1" using Cons.prems(2) by simp
  show ?case
  proof (cases "EXTRACTION_MAP table")
    case None
    with Cons.prems(1) have "fst (extend_loop table up gws acc ?w1) = Inr batch"
      by (simp add: Let_def)
    from Cons.IH[OF this e1] None r1 show ?thesis
      by (simp add: Let_def concatenated_batch_Cons)
  next
    case (Some ex)
    let ?r = "ex gw up ?w1"
    from Cons.prems(1) Some obtain d xs where d: "fst ?r = Inr d" "py_iter d = Inr xs"
      and rest: "fst (extend_loop table up gws (acc @ xs) (snd ?r)) = Inr batch"
      by (auto simp: Let_def split_beta split: sum.splits)
    have e2: "eff up w0 = eff up (snd ?r)" using e1 by (simp add: steadyD(3)[OF Some])
    have same: "fst (ex gw up w0) = fst ?r" by (rule steadyD(5)[OF Some e1])
    have r2: "requested table (snd ?r) = requested table w @ [gw]"
      using r1 by (simp add: steadyD(4)[OF Some])
    from Cons.IH[OF rest e2] Some d same r2 show ?thesis
      by (simp add: Let_def split_beta concatenated_batch_Cons records_of_def)
  qed
qed

subsection \<open>The two branches of the orchestrator\<close>

lemma get_latest_watermark_cong:
  "audit_log w' = audit_log w \<Longrightarrow> get_latest_watermark e w' t = get_latest_watermark e w t"
  by (simp add: get_latest_watermark_def watermark_cells_def)

lemma get_latest_finished_gameweek_props:
  "fst (get_latest_finished_gameweek up w) = latest_finished up"
  "gcs (snd (get_latest_finished_gameweek up w)) = gcs w"
  "audit_log (snd (get_latest_finished_gameweek up w)) = audit_log w"
  "eff up' (snd (get_latest_finished_gameweek up w)) = eff up' w"
  "requested t (snd (get_latest_finished_gameweek up w)) = requested t w"
  by (auto simp: get_latest_finished_gameweek_def latest_finished_def Let_def requested_log_event
      split: option.splits)

lemma upload_fields [simp]:
  "gcs (upload name c w) = put_blob name c (gcs w)"
  "audit_log (upload name c w) = audit_log w"
  "bootstrap_cache (upload name c w) = bootstrap_cache w"
  "log_entries (upload name c w) = log_entries w"
  by (simp_all add: upload_def)

lemma save_to_landing_props:
  assumes "py_iter data = Inr records"
  shows "fst (save_to_landing e table data w) = Inr (if truthy data then length records else 0)"
    and "gcs (snd (save_to_landing e table data w)) =
           (if truthy data then put_blob (landing_path e table) records (gcs w) else gcs w)"
    and "audit_log (snd (save_to_landing e table data w)) = audit_log w"
    and "eff up (snd (save_to_landing e table data w)) = eff up w"
    and "requested t (snd (save_to_landing e table data w)) = requested t w"
  using assms
  by (auto simp: save_to_landing_def Let_def eff_def requested_log_event requested_def)

lemma save_to_landing_error:
  assumes "py_iter data = Inl err"
  shows "save_to_landing e table data w =
           (if truthy data then (Inl err, w)
            else (Inr 0, log_event ''WARNING'' (No_data_to_save table) (Some table) w))"
  using assms by (simp add: save_to_landing_def)

lemma write_audit_log_props:
  "gcs (write_audit_log e table lt n v w) = gcs w"
  "audit_log (write_audit_log e table lt n v w) =
     (if bq_insert e = Inserted then audit_log w @ [audit_record e table lt n v] else audit_log w)"
  "eff up (write_audit_log e table lt n v w) = eff up w"
  "requested t (write_audit_log e table lt n v w) = requested t w"
  by (auto simp: write_audit_log_def eff_def requested_log_event requested_def split: bq_insert_outcome.splits)

lemma fetched_after_log:
  "audit_log w1 = audit_log w \<Longrightarrow> eff (api e) w1 = eff (api e) w \<Longrightarrow>
   fst (extend_loop table (api e)
          (py_range (get_latest_watermark e w table + 1) (c + 1)) [] w1) = fetched e table c w"
  unfolding fetched_def by (rule extend_loop_fst_cong)

text \<open>The incremental branch, in terms of what its loop fetched.\<close>

lemma extract_incremental_run:
  assumes run: "extract_incremental e table lt c w = (out, w')"
  shows "eff (api e) w' = eff (api e) w"
    and "\<And>err. fetched e table c w = Inl err \<Longrightarrow>
           out = Failed err \<and> gcs w' = gcs w \<and> audit_log w' = audit_log w"
    and "fetched e table c w = Inr [] \<Longrightarrow>
           out = No_new_data_since (get_latest_watermark e w table)
           \<and> gcs w' = gcs w \<and> audit_log w' = audit_log w"
    and "\<And>batch. fetched e table c w = Inr batch \<Longrightarrow> batch \<noteq> [] \<Longrightarrow>
           out = Completed
           \<and> gcs w' = put_blob (landing_path e table) batch (gcs w)
           \<and> audit_log w' =
               (if bq_insert e = Inserted
                then audit_log w @ [audit_record e table lt (length batch) (latest_finished (api e))]
                else audit_log w)"
    and "\<And>batch. fetched e table c w = Inr batch \<Longrightarrow>
           requested table w' = requested table w @ [get_latest_watermark e w table + 1 .. c]"
proof -
  let ?wm = "get_latest_watermark e w table"
  let ?w1 = "log_event ''INFO'' (Last_loaded_gameweek table ?wm) (Some table) w"
  let ?gws = "py_range (?wm + 1) (c + 1)"
  let ?L = "extend_loop table (api e) ?gws [] ?w1"
  have fL: "fst ?L = fetched e table c w"
    by (rule fetched_after_log) simp_all
  have frame: "gcs (snd ?L) = gcs w" "audit_log (snd ?L) = audit_log w" "eff (api e) (snd ?L) = eff (api e) w"
    using extend_loop_frame[of table "api e" ?gws "[]" ?w1] by simp_all
  have r1: "requested table ?w1 = requested table w" by (simp add: requested_log_event)
  note sv = save_to_landing_props[where data="JArr batch" and records=batch for batch, simplified]
  note lf = get_latest_finished_gameweek_props
  note wa = write_audit_log_props
  from run have run': "(case ?L of
           (Inl err, w2) \<Rightarrow> failed table err w2
         | (Inr all_data, w2) \<Rightarrow>
             (if all_data = [] then
                (No_new_data_since ?wm,
                 log_event ''INFO'' (No_new_data table ?wm) (Some table) w2)
              else
                (case save_to_landing e table (JArr all_data) w2 of
                   (Inl err, w3) \<Rightarrow> failed table err w3
                 | (Inr count, w3) \<Rightarrow>
                     (case get_latest_finished_gameweek (api e) w3 of
                        (latest_finished_gw, w4) \<Rightarrow>
                          (Completed,
                           log_event ''SUCCESS'' (Completed_extraction table) (Some table)
                             (write_audit_log e table lt count latest_finished_gw w4)))))) = (out, w')"
    by (simp add: extract_incremental_def Let_def)
  show "eff (api e) w' = eff (api e) w"
    using run' frame(3) fL
    by (auto simp: split_beta failed_def sv lf wa split: sum.splits if_splits)
  show "out = Failed err \<and> gcs w' = gcs w \<and> audit_log w' = audit_log w"
    if "fetched e table c w = Inl err" for err
    using run' frame fL that by (auto simp: split_beta failed_def split: sum.splits)
  show "out = No_new_data_since ?wm \<and> gcs w' = gcs w \<and> audit_log w' = audit_log w"
    if "fetched e table c w = Inr []"
    using run' frame fL that by (auto simp: split_beta split: sum.splits)
  show "out = Completed
           \<and> gcs w' = put_blob (landing_path e table) batch (gcs w)
           \<and> audit_log w' =
               (if bq_insert e = Inserted
                then audit_log w @ [audit_record e table lt (length batch) (latest_finished (api e))]
                else audit_log w)"
    if "fetched e table c w = Inr batch" "batch \<noteq> []" for batch
    using run' frame fL that
    by (auto simp: split_beta sv lf wa split: sum.splits)
  show "requested table w' = requested table w @ [?wm + 1 .. c]"
    if "fetched e table c w = Inr batch" for batch
  proof -
    from that fL have "fst ?L = Inr batch" by simp
    from extend_loop_batch[OF this refl]
    have rq: "requested table (snd ?L) = requested table w @ [?wm + 1 .. c]"
      by (simp add: r1 py_range_upto)
    show ?thesis
      using run' \<open>fst ?L = Inr batch\<close> rq
      by (auto simp: split_beta sv lf wa requested_log_event split: sum.splits if_splits)
  qed
qed

lemma truthy_iter: "py_iter data = Inr records \<Longrightarrow> truthy data = (records \<noteq> [])"
  by (cases data) auto

lemma map_of_put_blob: "map_of (put_blob name c blobs) name = Some c"
  by (induction blobs) auto

lemma map_of_put_blob_other: "n \<noteq> name \<Longrightarrow> map_of (put_blob name c blobs) n = map_of blobs n"
  by (induction blobs) auto

lemma extract_full_run:
  assumes ex: "EXTRACTION_MAP table = Some ex"
    and data: "fst (ex c (api e) w) = Inr data" "py_iter data = Inr records"
    and run: "extract_full e table lt c w = (out, w')"
  shows "out = Completed"
    and "gcs w' = (if records = [] then gcs w else put_blob (landing_path e table) records (gcs w))"
    and "audit_log w' =
           (if bq_insert e = Inserted then audit_log w @ [audit_record e table lt (length records) c]
            else audit_log w)"
    and "eff (api e) w' = eff (api e) w"
proof -
  let ?r = "ex c (api e) w"
  note sv = save_to_landing_props[OF data(2)]
  note wa = write_audit_log_props
  note st = steadyD(1-3)[OF ex]
  have t: "truthy data = (records \<noteq> [])" by (rule truthy_iter[OF data(2)])
  from run ex data(1) have run': "(Completed,
        log_event ''SUCCESS'' (Completed_extraction table) (Some table)
          (write_audit_log e table lt (length records) c
             (snd (save_to_landing e table data (snd ?r))))) = (out, w')"
    by (auto simp: extract_full_def split_beta sv t split: sum.splits)
  from run' show "out = Completed" by simp
  from run' show "gcs w' = (if records = [] then gcs w else put_blob (landing_path e table) records (gcs w))"
    by (auto simp: wa sv st t)
  from run' show "audit_log w' =
           (if bq_insert e = Inserted then audit_log w @ [audit_record e table lt (length records) c]
            else audit_log w)"
    by (auto simp: wa sv st t)
  from run' show "eff (api e) w' = eff (api e) w"
    by (auto simp: wa sv st t)
qed

lemma fetched_empty_range:
  "c \<le> get_latest_watermark e w table \<Longrightarrow> fetched e table c w = Inr []"
  by (simp add: fetched_def py_range_upto)

lemma fetched_cong:
  "audit_log w1 = audit_log w \<Longrightarrow> eff (api e) w1 = eff (api e) w \<Longrightarrow>
   fetched e table c w1 = fetched e table c w"
  using fetched_after_log[of w1 w e table c] get_latest_watermark_cong[of w1 w e table]
  by (simp add: fetched_def)

lemma incremental_run:
  assumes inc: "py_lower lt = ''incremental''"
    and run: "extract_and_save_to_landing e table lt c w = (out, w')"
  shows "eff (api e) w' = eff (api e) w"
    and "\<And>err. fetched e table c w = Inl err \<Longrightarrow>
           out = Failed err \<and> gcs w' = gcs w \<and> audit_log w' = audit_log w"
    and "fetched e table c w = Inr [] \<Longrightarrow>
           out = No_new_data_since (get_latest_watermark e w table)
           \<and> gcs w' = gcs w \<and> audit_log w' = audit_log w"
    and "\<And>batch. fetched e table c w = Inr batch \<Longrightarrow> batch \<noteq> [] \<Longrightarrow>
           out = Completed
           \<and> gcs w' = put_blob (landing_path e table) batch (gcs w)
           \<and> audit_log w' =
               (if bq_insert e = Inserted
                then audit_log w @ [audit_record e table lt (length batch) (latest_finished (api e))]
                else audit_log w)"
    and "\<And>batch. fetched e table c w = Inr batch \<Longrightarrow>
           requested table w' = requested table w @ [get_latest_watermark e w table + 1 .. c]"
proof -
  let ?w1 = "log_event ''INFO'' (Starting_extraction table lt) (Some table) w"
  from inc run have r: "extract_incremental e table lt c ?w1 = (out, w')"
    by (simp add: extract_and_save_to_landing_def Let_def)
  have f: "fetched e table c ?w1 = fetched e table c w"
    by (rule fetched_cong) simp_all
  have wm: "get_latest_watermark e ?w1 table = get_latest_watermark e w table"
    by (rule get_latest_watermark_cong) simp
  have rq: "requested table ?w1 = requested table w"
    by (simp add: requested_log_event)
  note facts = extract_incremental_run[OF r]
  show "eff (api e) w' = eff (api e) w" using facts(1) by simp
  show "out = Failed err \<and> gcs w' = gcs w \<and> audit_log w' = audit_log w"
    if "fetched e table c w = Inl err" for err using facts(2)[of err] that f by simp
  show "out = No_new_data_since (get_latest_watermark e w table)
           \<and> gcs w' = gcs w \<and> audit_log w' = audit_log w"
    if "fetched e table c w = Inr []" using facts(3) that f wm by simp
  show "out = Completed
           \<and> gcs w' = put_blob (landing_path e table) batch (gcs w)
           \<and> audit_log w' =
               (if bq_insert e = Inserted
                then audit_log w @ [audit_record e table lt (length batch) (latest_finished (api e))]
                else audit_log w)"
    if "fetched e table c w = Inr batch" "batch \<noteq> []" for batch
    using facts(4)[of batch] that f by simp
  show "requested table w' = requested table w @ [get_latest_watermark e w table + 1 .. c]"
    if "fetched e table c w = Inr batch" for batch
    using facts(5)[of batch] that f wm rq by simp
qed


lemma full_run:
  assumes full: "py_lower lt \<noteq> ''incremental''"
    and ex: "EXTRACTION_MAP table = Some ex"
    and data: "fst (ex c (api e) w) = Inr data" "py_iter data = Inr records"
    and run: "extract_and_save_to_landing e table lt c w = (out, w')"
  shows "out = Completed"
    and "gcs w' = (if records = [] then gcs w else put_blob (landing_path e table) records (gcs w))"
    and "audit_log w' =
           (if bq_insert e = Inserted then audit_log w @ [audit_record e table lt (length records) c]
            else audit_log w)"
    and "eff (api e) w' = eff (api e) w"
proof -
  let ?w1 = "log_event ''INFO'' (Starting_extraction table lt) (Some table) w"
  from full run have r: "extract_full e table lt c ?w1 = (out, w')"
    by (simp add: extract_and_save_to_landing_def Let_def)
  have "fst (ex c (api e) ?w1) = fst (ex c (api e) w)"
    by (rule steadyD(5)[OF ex]) simp
  with data(1) have d: "fst (ex c (api e) ?w1) = Inr data" by simp
  note facts = extract_full_run[OF ex d data(2) r]
  show "out = Completed" by (rule facts(1))
  show "gcs w' = (if records = [] then gcs w else put_blob (landing_path e table) records (gcs w))"
    using facts(2) by simp
  show "audit_log w' =
           (if bq_insert e = Inserted then audit_log w @ [audit_record e table lt (length records) c]
            else audit_log w)"
    using facts(3) by simp
  show "eff (api e) w' = eff (api e) w" using facts(4) by simp
qed





lemma audit_record_sel [simp]:
  "tablename (audit_record e table lt n v) = table"
  "data_source (audit_record e table lt n v) = DATA_SOURCE"
  "load_watermark (audit_record e table lt n v) = (if v \<noteq> 0 then Some (py_str v) else None)"
  "record_count (audit_record e table lt n v) = n"
  by (simp_all add: audit_record_def)












lemma EXTRACTION_MAP_teams: "EXTRACTION_MAP ''teams'' = Some (\<lambda>_. extract_teams)"
  by (simp add: EXTRACTION_MAP_def)

text \<open>The watermark in the spec's words cannot fall, and loops that fetch nothing.\<close>

lemma fold_max_mono: "fold max xs (a::int) \<le> fold max (xs @ ys) a"
proof -
  have "b \<le> fold max ys b" for b :: int
    by (induction ys arbitrary: b) (auto intro: order_trans[OF max.cobounded2])
  then show ?thesis by simp
qed

lemma max_recorded_watermark_mono:
  assumes "py_lower lt = ''incremental''"
    and "extract_and_save_to_landing e table lt c w = (out, w')"
  shows "max_recorded_watermark w table \<le> max_recorded_watermark w' table"
proof -
  note r = incremental_run[OF assms]
  have "\<exists>extra. audit_log w' = audit_log w @ extra"
  proof (cases "fetched e table c w")
    case (Inl err)
    with r(2) show ?thesis by simp
  next
    case (Inr batch)
    with r(3) r(4)[OF Inr] show ?thesis by (cases "batch = []") auto
  qed
  then obtain extra where "audit_log w' = audit_log w @ extra" by blast
  then have "\<exists>more. watermark_cells w' table = watermark_cells w table @ more"
    by (simp add: watermark_cells_def)
  then show ?thesis
    by (auto simp: max_recorded_watermark_def fold_max_mono simp del: fold_append)
qed

lemma extend_loop_total:
  assumes "\<forall>gw\<in>set gws. \<forall>ex. EXTRACTION_MAP table = Some ex \<longrightarrow>
             (\<exists>d xs. fst (ex gw up w) = Inr d \<and> py_iter d = Inr xs)"
  shows "fst (extend_loop table up gws acc w) = Inr (acc @ concatenated_batch table up w gws)"
  using assms
proof (induction gws arbitrary: acc)
  case Nil
  show ?case by (simp add: concatenated_batch_def)
next
  case (Cons gw gws)
  let ?w1 = "log_event ''INFO'' (Extracting table gw) (Some table) w"
  have e1: "eff up ?w1 = eff up w" by simp
  show ?case
  proof (cases "EXTRACTION_MAP table")
    case None
    have "fst (extend_loop table up gws acc ?w1) = fst (extend_loop table up gws acc w)"
      by (rule extend_loop_fst_cong[OF e1])
    with None Cons show ?thesis by (simp add: Let_def concatenated_batch_Cons)
  next
    case (Some ex)
    from Cons.prems Some obtain d xs where d: "fst (ex gw up w) = Inr d" "py_iter d = Inr xs"
      by auto
    have same: "fst (ex gw up ?w1) = fst (ex gw up w)" by (rule steadyD(5)[OF Some e1])
    have "eff up (snd (ex gw up ?w1)) = eff up w" by (simp add: steadyD(3)[OF Some])
    then have "fst (extend_loop table up gws (acc @ xs) (snd (ex gw up ?w1)))
                 = fst (extend_loop table up gws (acc @ xs) w)"
      by (rule extend_loop_fst_cong)
    with Cons Some d same show ?thesis
      by (simp add: Let_def split_beta concatenated_batch_Cons records_of_def)
  qed
qed

lemma fetched_nothing:
  assumes "\<forall>gw\<in>set [get_latest_watermark e w table + 1 .. c]. \<forall>ex. EXTRACTION_MAP table = Some ex \<longrightarrow>
             (\<exists>d. fst (ex gw (api e) w) = Inr d \<and> py_iter d = Inr [])"
  shows "fetched e table c w = Inr []"
proof -
  let ?gws = "[get_latest_watermark e w table + 1 .. c]"
  from assms have "\<forall>gw\<in>set ?gws. \<forall>ex. EXTRACTION_MAP table = Some ex \<longrightarrow>
             (\<exists>d xs. fst (ex gw (api e) w) = Inr d \<and> py_iter d = Inr xs)" by blast
  then have "fst (extend_loop table (api e) ?gws [] w) = Inr ([] @ concatenated_batch table (api e) w ?gws)"
    by (rule extend_loop_total)
  moreover have "concatenated_batch table (api e) w ?gws = []"
    using assms by (cases "EXTRACTION_MAP table") (auto simp: concatenated_batch_def records_of_def)
  ultimately show ?thesis by (simp add: fetched_def py_range_upto)
qed

subsection \<open>Dicts and flattening\<close>









subsection \<open>Watermark read and archive path\<close>



lemma archive_path_ignores_clock:
  "archive_path_of e table file = archive_path_of e' table file"
  using date_parts_total[of "file"] by (auto simp: archive_path_of_def)

lemma archive_then_write_example:
  "gcs (process_row teams_env 5
          \<lparr>datasource = ''fpl-api'', table_name = ''teams'', row_load_type = ''full'', is_active = ''1''\<rparr>
          teams_world) =
     [(''landing/fpl-api/archive/teams/2025/01/01/teams_01012025.json'', [JObj [(''id'', JInt 0)]]),
      (''landing/fpl-api/teams/teams_02032025.json'', [JObj [(''id'', JInt 1)], JObj [(''id'', JInt 2)]])]"
  by code_simp

lemma get_latest_watermark_query_fails:
  "\<not> bq_query_ok e \<Longrightarrow> get_latest_watermark e w table = 0"
  by (simp add: get_latest_watermark_def)

lemma get_latest_watermark_no_entry:
  "\<forall>a\<in>set (audit_log w). tablename a \<noteq> table \<or> data_source a \<noteq> DATA_SOURCE \<Longrightarrow>
   get_latest_watermark e w table = 0"
proof -
  assume "\<forall>a\<in>set (audit_log w). tablename a \<noteq> table \<or> data_source a \<noteq> DATA_SOURCE"
  then have "filter (\<lambda>a. tablename a = table \<and> data_source a = DATA_SOURCE) (audit_log w) = []"
    by (auto simp: filter_empty_conv)
  then show ?thesis
    by (simp add: get_latest_watermark_def watermark_cells_def sql_max_def watermark_of_cell_def)
qed

section \<open>The claims\<close>

subsection \<open>Incremental loads\<close>









text \<open>
  Claim C4 says that the watermark read after a successful incremental run is never
  below the one read before. The ledger stores watermarks as strings and the read takes
  the greatest string: with watermark 10 recorded, a run that records 9 makes the read
  fall from 10 to 9, although the greatest recorded number is still 10.
\<close>

theorem C4_watermark_regress:
  "get_latest_watermark regress_env regress_world ''gameweek_live'' = 10
   \<and> fst (extract_and_save_to_landing regress_env ''gameweek_live'' ''incremental'' 11 regress_world) = Completed
   \<and> map load_watermark (audit_log regress_run) = [Some ''10'', Some ''9'']
   \<and> get_latest_watermark regress_env regress_run ''gameweek_live'' = 9
   \<and> max_recorded_watermark regress_run ''gameweek_live'' = 10"
  by code_simp

text \<open>
  Claim C5. When the batch an incremental run fetched is empty, because the range is
  empty or because every fetch of the range returned nothing, the run writes no landing
  object, appends no audit entry and leaves the watermark as it was. The run is that of
  \<^verbatim>\<open>extract_and_save_to_landing\<close>; the archive step, which the loop of the pipeline
  performs before it, is a separate function.
\<close>

theorem C5_empty_batch_noop:
  assumes "py_lower lt = ''incremental''"
    and "extract_and_save_to_landing e table lt c w = (out, w')"
    and "fetched e table c w = Inr []"
  shows "out = No_new_data_since (get_latest_watermark e w table)
     \<and> gcs w' = gcs w \<and> audit_log w' = audit_log w
     \<and> get_latest_watermark e w' table = get_latest_watermark e w table"
  using incremental_run(3)[OF assms] get_latest_watermark_cong[of w' w e table] by simp

text \<open>With watermark 5 and current sequence 5 the range is empty and the run changes nothing.\<close>

theorem C5_empty_batch_noop_witness:
  "py_lower ''incremental'' = ''incremental''
   \<and> get_latest_watermark ex_env (mk_world [] (ledger_of ''gameweek_live'' [5])) ''gameweek_live'' = 5
   \<and> fetched ex_env ''gameweek_live'' 5 (mk_world [] (ledger_of ''gameweek_live'' [5])) = Inr []
   \<and> gcs (snd (extract_and_save_to_landing ex_env ''gameweek_live'' ''incremental'' 5
              (mk_world [] (ledger_of ''gameweek_live'' [5])))) = []
   \<and> audit_log (snd (extract_and_save_to_landing ex_env ''gameweek_live'' ''incremental'' 5
              (mk_world [] (ledger_of ''gameweek_live'' [5])))) = ledger_of ''gameweek_live'' [5]"
proof -
  let ?w = "mk_world [] (ledger_of ''gameweek_live'' [5])"
  have h1: "py_lower ''incremental'' = ''incremental''" by code_simp
  have h2: "extract_and_save_to_landing ex_env ''gameweek_live'' ''incremental'' 5 ?w =
              (fst (extract_and_save_to_landing ex_env ''gameweek_live'' ''incremental'' 5 ?w),
               snd (extract_and_save_to_landing ex_env ''gameweek_live'' ''incremental'' 5 ?w))"
    by simp
  have wm: "get_latest_watermark ex_env ?w ''gameweek_live'' = 5" by code_simp
  have h3: "fetched ex_env ''gameweek_live'' 5 ?w = Inr []"
    by (rule fetched_empty_range) (simp add: wm)
  from C5_empty_batch_noop[OF h1 h2 h3] show ?thesis
    using h1 h3 wm by (simp add: mk_world_def)
qed

subsection \<open>Full loads\<close>

text \<open>
  Claim C6. A run of a dataset whose load type is not incremental, for which an
  extractor is registered and returns a collection of records, writes exactly these
  records, in their order, as the landing object (nothing when there is none), and
  appends an audit entry whose watermark is the current sequence: stored as its decimal
  string (null for 0), read back as the number. Nothing of this depends on the ledger the run starts
  from, and the events of the upstream payload and their flags play no part. The entry
  is appended unless the warehouse refuses the insert.
\<close>

theorem C6_full_load:
  assumes "py_lower lt \<noteq> ''incremental''"
    and "EXTRACTION_MAP table = Some ex"
    and "fst (ex c (api e) w) = Inr data"
    and "py_iter data = Inr records"
    and "extract_and_save_to_landing e table lt c w = (out, w')"
  shows "out = Completed
     \<and> gcs w' = (if records = [] then gcs w else put_blob (landing_path e table) records (gcs w))
     \<and> (records \<noteq> [] \<longrightarrow> blob_content w' (landing_path e table) = Some records)
     \<and> audit_log w' =
         (if bq_insert e = Inserted then audit_log w @ [audit_record e table lt (length records) c]
          else audit_log w)
     \<and> watermark_of_cell (load_watermark (audit_record e table lt (length records) c)) = c
     \<and> (\<forall>ledger.
           gcs (snd (extract_and_save_to_landing e table lt c (w\<lparr>audit_log := ledger\<rparr>))) = gcs w'
           \<and> audit_log (snd (extract_and_save_to_landing e table lt c (w\<lparr>audit_log := ledger\<rparr>))) =
               (if bq_insert e = Inserted
                then ledger @ [audit_record e table lt (length records) c] else ledger))"
proof -
  note run = full_run[OF assms]
  have blob: "blob_content w' (landing_path e table) = Some records" if "records \<noteq> []"
    using run(2) that by (simp add: blob_content_def map_of_put_blob)
  have other: "gcs (snd (extract_and_save_to_landing e table lt c (w\<lparr>audit_log := ledger\<rparr>))) = gcs w'
        \<and> audit_log (snd (extract_and_save_to_landing e table lt c (w\<lparr>audit_log := ledger\<rparr>))) =
            (if bq_insert e = Inserted
             then ledger @ [audit_record e table lt (length records) c] else ledger)" for ledger
  proof -
    let ?w = "w\<lparr>audit_log := ledger\<rparr>"
    have "fst (ex c (api e) ?w) = fst (ex c (api e) w)"
      by (rule steadyD(5)[OF assms(2)]) (simp add: eff_def)
    with assms(3) have d: "fst (ex c (api e) ?w) = Inr data" by simp
    have r: "extract_and_save_to_landing e table lt c ?w =
               (fst (extract_and_save_to_landing e table lt c ?w),
                snd (extract_and_save_to_landing e table lt c ?w))" by simp
    from full_run(2,3)[OF assms(1,2) d assms(4) r] run(2) show ?thesis by simp
  qed
  from run blob other show ?thesis
    by (simp add: watermark_of_cell_audit_record)
qed

text \<open>
  A full load of the teams at current sequence 5, with watermark 9 in the ledger: both
  teams are written and the entry records 5.
\<close>

theorem C6_full_load_witness:
  "py_lower ''full'' \<noteq> ''incremental''
   \<and> get_latest_watermark teams_env teams_world ''teams'' = 9
   \<and> fst (extract_teams (api teams_env) teams_world) = Inr (JArr [JObj [(''id'', JInt 1)], JObj [(''id'', JInt 2)]])
   \<and> blob_content (snd (extract_and_save_to_landing teams_env ''teams'' ''full'' 5 teams_world))
        (landing_path teams_env ''teams'') = Some [JObj [(''id'', JInt 1)], JObj [(''id'', JInt 2)]]
   \<and> audit_log (snd (extract_and_save_to_landing teams_env ''teams'' ''full'' 5 teams_world)) =
       ledger_of ''teams'' [9] @ [audit_record teams_env ''teams'' ''full'' 2 5]
   \<and> watermark_of_cell (load_watermark (audit_record teams_env ''teams'' ''full'' 2 5)) = 5"
proof -
  let ?recs = "[JObj [(''id'', JInt 1)], JObj [(''id'', JInt 2)]]"
  have h1: "py_lower ''full'' \<noteq> ''incremental''" by code_simp
  have h3: "fst ((\<lambda>_. extract_teams) 5 (api teams_env) teams_world) = Inr (JArr ?recs)" by code_simp
  have h4: "py_iter (JArr ?recs) = Inr ?recs" by simp
  have h5: "extract_and_save_to_landing teams_env ''teams'' ''full'' 5 teams_world =
              (fst (extract_and_save_to_landing teams_env ''teams'' ''full'' 5 teams_world),
               snd (extract_and_save_to_landing teams_env ''teams'' ''full'' 5 teams_world))"
    by simp
  have wm: "get_latest_watermark teams_env teams_world ''teams'' = 9" by code_simp
  have ins: "bq_insert teams_env = Inserted" by code_simp
  have w0: "audit_log teams_world = ledger_of ''teams'' [9]" by (simp add: teams_world_def mk_world_def)
  from C6_full_load[OF h1 EXTRACTION_MAP_teams h3 h4 h5] h1 h3 wm ins w0 show ?thesis
    by (simp add: numeral_2_eq_2)
qed

subsection \<open>Flattening of live statistics\<close>




subsection \<open>Archive\<close>

text \<open>
  Claim C8 says that the date of the archive path comes from the clock when the suffix
  of the file name is no date. The \<^verbatim>\<open>try\<close> block only splits and slices, which never
  raises, so the \<^verbatim>\<open>except\<close> branch is never taken: on 02.03.2025 the object
  \<^verbatim>\<open>teams_latest.json\<close> is moved to \<^verbatim>\<open>archive/teams/st/te/la/\<close>.
\<close>

theorem C8_no_clock_fallback:
  "(now_day ex_env, now_month ex_env, now_year ex_env) = (''02'', ''03'', ''2025'')
   \<and> archive_path_of ex_env ''teams'' ''landing/fpl-api/teams/teams_latest.json'' =
       ''landing/fpl-api/archive/teams/st/te/la/teams_latest.json''
   \<and> gcs (move_existing_files_to_archive ex_env ''teams'' stale_world) =
       [(''landing/fpl-api/archive/teams/st/te/la/teams_latest.json'', [JObj [(''id'', JInt 0)]])]"
  by code_simp

subsection \<open>Watermark read\<close>

text \<open>
  Claim C9 says that the read returns the maximum recorded watermark. With 9 and 10
  recorded it returns 9: the maximum is taken over the stored strings.
\<close>

theorem C9_string_maximum:
  "map load_watermark (ledger_of ''gameweek_live'' [9, 10]) = [Some ''9'', Some ''10'']
   \<and> get_latest_watermark ex_env (mk_world [] (ledger_of ''gameweek_live'' [9, 10])) ''gameweek_live'' = 9
   \<and> max_recorded_watermark (mk_world [] (ledger_of ''gameweek_live'' [9, 10])) ''gameweek_live'' = 10"
  by code_simp




end
